theory Spec2Isabelle
  imports Main
begin

section \<open>Data model\<close>

text \<open>
  The rows of three tables of the migration (products, orders and order items), with the
  columns the order function reads or writes. Identifiers are uuids, kept as strings; a
  product id of a request that is no uuid is refused by the read of the products, which
  is the case \<open>fetch_ok = False\<close> below.
  A \<open>numeric(10, 2)\<close> amount is an integer count of hundredths, so that equality of
  amounts is equality to the stored precision; the function's arithmetic on JavaScript
  numbers is taken as exact on these values. Timestamps, descriptions and images are left out.
\<close>

type_synonym uuid = string

record product =
  p_id :: uuid
  p_name :: string
  price :: int
  stock :: int

record order =
  o_id :: uuid
  user_id :: uuid
  total_amount :: int
  status :: string

record order_item =
  oi_order_id :: uuid
  oi_product_id :: uuid
  oi_quantity :: int
  oi_price :: int

text \<open>\<open>interface CartItem\<close> of \<open>create-order/index.ts\<close>.\<close>

record cart_item =
  product_id :: uuid
  quantity :: int

text \<open>
  A quantity as it arrives in an entry that need not have the type \<open>CartItem\<close>: an
  integer, absent (\<open>undefined\<close>), or \<open>null\<close>. A number of the function is an integer or
  \<open>NaN\<close>; \<open>to_number\<close> is the conversion that \<open><\<close>, \<open>*\<close> and \<open>-\<close> apply to
  their operands: \<open>undefined\<close> becomes \<open>NaN\<close> and \<open>null\<close> becomes 0.
\<close>

datatype js_quantity = QInt int | QUndefined | QNull

datatype js_number = Num int | NaN

fun to_number :: "js_quantity \<Rightarrow> js_number" where
  "to_number (QInt n) = Num n"
| "to_number QUndefined = NaN"
| "to_number QNull = Num 0"

fun js_less :: "js_number \<Rightarrow> js_number \<Rightarrow> bool" where
  "js_less (Num a) (Num b) = (a < b)"
| "js_less _ _ = False"

fun js_add :: "js_number \<Rightarrow> js_number \<Rightarrow> js_number" where
  "js_add (Num a) (Num b) = Num (a + b)"
| "js_add _ _ = NaN"

fun js_mul :: "js_number \<Rightarrow> js_number \<Rightarrow> js_number" where
  "js_mul (Num a) (Num b) = Num (a * b)"
| "js_mul _ _ = NaN"

fun js_sub :: "js_number \<Rightarrow> js_number \<Rightarrow> js_number" where
  "js_sub (Num a) (Num b) = Num (a - b)"
| "js_sub _ _ = NaN"

record untyped_item =
  u_product_id :: uuid
  u_quantity :: js_quantity

text \<open>
  What \<open>await req.json()\<close> followed by the destructuring of \<open>items\<close> can give:
  \<^item> \<open>BadJson\<close>: the body does not parse or is \<open>null\<close>; both throw.
  \<^item> \<open>Falsy\<close>: \<open>items\<close> is absent, \<open>null\<close>, \<open>0\<close>, \<open>false\<close> or the empty string.
  \<^item> \<open>NotArray z\<close>: \<open>items\<close> is a truthy value that is no array (an object, a number,
    \<open>true\<close>, a non-empty string); \<open>z\<close> tells whether its \<open>length\<close> is 0, as for the
    object \<open>{"length": 0}\<close>. None of these values has a \<open>map\<close> that can be called.
  \<^item> \<open>ItemList\<close>: \<open>items\<close> is an array all of whose entries have the type
    \<open>CartItem\<close>, a product id and an integer quantity.
  \<^item> \<open>UntypedList\<close>: \<open>items\<close> is an array whose entries are \<open>null\<close> (\<open>None\<close>) or
    carry a product id and a quantity that is an integer, absent or \<open>null\<close>.

  Not represented: a quantity that is a fraction, a string, a boolean, an object or an
  array. A product id that is no string reaches the filter of the read as its rendering,
  which is no uuid.
\<close>

datatype items_field =
  Falsy | NotArray bool | ItemList "cart_item list" | UntypedList "untyped_item option list"

datatype request_body = BadJson | Body items_field

datatype access = SelectProducts | InsertOrder | InsertOrderItems | DeleteOrder | UpdateProduct

text \<open>
  The store: the three tables, and the list of the calls made on it so far (the
  store-access counter of the tests), oldest first.
\<close>

record store =
  products :: "product list"
  orders :: "order list"
  order_items :: "order_item list"
  accesses :: "access list"

text \<open>
  What the function cannot decide: whether each call on the store is answered or fails
  (store unreachable, time-out, a constraint this model does not carry such as the foreign
  key of \<open>orders.user_id\<close>), and the id that \<open>gen_random_uuid()\<close> draws for the new
  order. \<open>update_oks\<close> answers the stock updates in the order they are made; once the list
  is used up every further update is answered.
\<close>

record env =
  fetch_ok :: bool
  order_insert_ok :: bool
  new_order_id :: uuid
  items_insert_ok :: bool
  delete_ok :: bool
  update_oks :: "bool list"

datatype resp_body = NoBody | ErrorBody string | Thrown | Success order

record response =
  status_code :: nat
  body :: resp_body

definition error_response :: "nat \<Rightarrow> string \<Rightarrow> response" where
  "error_response code msg = \<lparr>status_code = code, body = ErrorBody msg\<rparr>"

text \<open>The \<open>catch\<close> block: status 500 with the message of whatever was thrown.\<close>

definition caught :: response where
  "caught = \<lparr>status_code = 500, body = Thrown\<rparr>"

section \<open>Rendering numbers in template literals\<close>

fun string_of_nat :: "nat \<Rightarrow> string" where
  "string_of_nat n =
     (if n < 10 then [''0123456789'' ! n]
      else string_of_nat (n div 10) @ [''0123456789'' ! (n mod 10)])"

declare string_of_nat.simps [simp del]

definition string_of_int :: "int \<Rightarrow> string" where
  "string_of_int i = (if i < 0 then ''-'' @ string_of_nat (nat (- i)) else string_of_nat (nat i))"

section \<open>The calls on the store\<close>

definition logged :: "access \<Rightarrow> store \<Rightarrow> store" where
  "logged a s = s\<lparr>accesses := accesses s @ [a]\<rparr>"

text \<open>\<open>supabase.from("products").select("*").in("id", productIds)\<close>\<close>

definition products_in :: "uuid list \<Rightarrow> store \<Rightarrow> product list" where
  "products_in ids s = filter (\<lambda>p. p_id p \<in> set ids) (products s)"

definition select_products_in :: "env \<Rightarrow> uuid list \<Rightarrow> store \<Rightarrow> product list option \<times> store" where
  "select_products_in e ids s =
     (if fetch_ok e then Some (products_in ids s) else None, logged SelectProducts s)"

text \<open>
  \<open>supabase.from("orders").insert({...}).select().single()\<close>. The table has
  \<open>total_amount numeric(10, 2) NOT NULL CHECK (total_amount >= 0)\<close> and the primary key
  \<open>id\<close>.
\<close>

definition insert_order :: "env \<Rightarrow> uuid \<Rightarrow> int \<Rightarrow> store \<Rightarrow> order option \<times> store" where
  "insert_order e uid amount s =
     (let row = \<lparr>o_id = new_order_id e, user_id = uid, total_amount = amount, status = ''pending''\<rparr>
      in if order_insert_ok e \<and> 0 \<le> amount \<and> amount < 10000000000
            \<and> new_order_id e \<notin> set (map o_id (orders s))
         then (Some row, logged InsertOrder (s\<lparr>orders := orders s @ [row]\<rparr>))
         else (None, logged InsertOrder s))"

text \<open>
  \<open>supabase.from("order_items").insert(orderItems)\<close>: one statement, all rows or none.
  The table has \<open>order_id REFERENCES orders(id)\<close>, \<open>product_id REFERENCES products(id)\<close>,
  \<open>CHECK (quantity > 0)\<close> and \<open>CHECK (price >= 0)\<close>.
\<close>

definition item_row_ok :: "store \<Rightarrow> order_item \<Rightarrow> bool" where
  "item_row_ok s r \<longleftrightarrow>
     0 < oi_quantity r \<and> 0 \<le> oi_price r
     \<and> oi_order_id r \<in> set (map o_id (orders s))
     \<and> oi_product_id r \<in> set (map p_id (products s))"

definition insert_order_items :: "env \<Rightarrow> order_item list \<Rightarrow> store \<Rightarrow> bool \<times> store" where
  "insert_order_items e rows s =
     (if items_insert_ok e \<and> list_all (item_row_ok s) rows
      then (True, logged InsertOrderItems (s\<lparr>order_items := order_items s @ rows\<rparr>))
      else (False, logged InsertOrderItems s))"

text \<open>
  \<open>supabase.from("orders").delete().eq("id", order.id)\<close>; \<open>order_items.order_id\<close> is
  \<open>ON DELETE CASCADE\<close>. The function does not look at the answer.
\<close>

definition delete_order :: "env \<Rightarrow> uuid \<Rightarrow> store \<Rightarrow> store" where
  "delete_order e oid s =
     (if delete_ok e
      then logged DeleteOrder
             (s\<lparr>orders := filter (\<lambda>ord. o_id ord \<noteq> oid) (orders s),
                order_items := filter (\<lambda>r. oi_order_id r \<noteq> oid) (order_items s)\<rparr>)
      else logged DeleteOrder s)"

text \<open>
  \<open>supabase.from("products").update({ stock: v }).eq("id", pid)\<close>; the table has
  \<open>CHECK (stock >= 0)\<close>. The function does not look at the answer.
\<close>

definition update_stock :: "bool \<Rightarrow> uuid \<Rightarrow> int \<Rightarrow> store \<Rightarrow> store" where
  "update_stock ok pid v s =
     (if ok \<and> 0 \<le> v
      then logged UpdateProduct
             (s\<lparr>products := map (\<lambda>p. if p_id p = pid then p\<lparr>stock := v\<rparr> else p) (products s)\<rparr>)
      else logged UpdateProduct s)"

section \<open>The order function\<close>

text \<open>\<open>products.find((p) => p.id === item.product_id)\<close>\<close>

definition find_product :: "product list \<Rightarrow> cart_item \<Rightarrow> product option" where
  "find_product ps item = find (\<lambda>p. p_id p = product_id item) ps"

text \<open>The first loop (lines 84 to 106): \<open>Some\<close> is the response of an early return.\<close>

fun validate :: "product list \<Rightarrow> cart_item list \<Rightarrow> response option" where
  "validate ps [] = None"
| "validate ps (item # items) =
     (case find_product ps item of
        None \<Rightarrow> Some (error_response 404 (''Product '' @ product_id item @ '' not found''))
      | Some product \<Rightarrow>
          if stock product < quantity item
          then Some (error_response 400
                 (''Insufficient stock for '' @ p_name product @ ''. Available: ''
                    @ string_of_int (stock product)))
          else validate ps items)"

text \<open>The second loop (lines 108 to 114), from the running total it has reached.\<close>

fun totalAmount :: "product list \<Rightarrow> cart_item list \<Rightarrow> int \<Rightarrow> int" where
  "totalAmount ps [] acc = acc"
| "totalAmount ps (item # items) acc =
     (case find_product ps item of
        None \<Rightarrow> totalAmount ps items acc
      | Some product \<Rightarrow> totalAmount ps items (acc + price product * quantity item))"

text \<open>
  \<open>items.map(...)\<close> of lines 136 to 144; \<open>product!.price\<close> throws on a product that is
  not found, which is \<open>None\<close> here.
\<close>

fun orderItems :: "product list \<Rightarrow> uuid \<Rightarrow> cart_item list \<Rightarrow> order_item list option" where
  "orderItems ps oid [] = Some []"
| "orderItems ps oid (item # items) =
     (case find_product ps item of
        None \<Rightarrow> None
      | Some product \<Rightarrow>
          map_option
            (\<lambda>rows. \<lparr>oi_order_id = oid, oi_product_id = product_id item,
                     oi_quantity = quantity item, oi_price = price product\<rparr> # rows)
            (orderItems ps oid items))"

text \<open>The last loop (lines 161 to 169): one update for each item whose product is found.\<close>

fun decrement_stock :: "bool list \<Rightarrow> product list \<Rightarrow> cart_item list \<Rightarrow> store \<Rightarrow> store" where
  "decrement_stock oks ps [] s = s"
| "decrement_stock oks ps (item # items) s =
     (case find_product ps item of
        None \<Rightarrow> decrement_stock oks ps items s
      | Some product \<Rightarrow>
          decrement_stock (tl oks) ps items
            (update_stock (case oks of [] \<Rightarrow> True | ok # _ \<Rightarrow> ok)
               (product_id item) (stock product - quantity item) s))"

text \<open>Lines 108 to 177: what follows a validation that passed.\<close>

definition commit :: "env \<Rightarrow> uuid \<Rightarrow> product list \<Rightarrow> cart_item list \<Rightarrow> store \<Rightarrow> response \<times> store" where
  "commit e uid ps items s =
     (case insert_order e uid (totalAmount ps items 0) s of
        (None, s1) \<Rightarrow> (error_response 500 ''Failed to create order'', s1)
      | (Some ord, s1) \<Rightarrow>
          (case orderItems ps (o_id ord) items of
             None \<Rightarrow> (caught, s1)
           | Some rows \<Rightarrow>
               (case insert_order_items e rows s1 of
                  (False, s2) \<Rightarrow>
                    (error_response 500 ''Failed to create order items'',
                     delete_order e (o_id ord) s2)
                | (True, s2) \<Rightarrow>
                    (\<lparr>status_code = 200, body = Success ord\<rparr>,
                     decrement_stock (update_oks e) ps items s2))))"

text \<open>Lines 74 to 177: what follows the answer to the read of the products.\<close>

definition after_fetch ::
  "env \<Rightarrow> uuid \<Rightarrow> product list option \<Rightarrow> cart_item list \<Rightarrow> store \<Rightarrow> response \<times> store" where
  "after_fetch e uid fetched items s =
     (case fetched of
        None \<Rightarrow> (error_response 500 ''Failed to fetch products'', s)
      | Some ps \<Rightarrow>
          (case validate ps items of
             Some r \<Rightarrow> (r, s)
           | None \<Rightarrow> commit e uid ps items s))"

section \<open>The order function on entries that need not be typed\<close>

text \<open>
  The same lines of the function, read for entries whose quantity may be absent or
  \<open>null\<close>. The comparison of line 95 and the arithmetic of lines 112 and 166 convert the
  quantity with \<open>to_number\<close>.
\<close>

definition find_untyped :: "product list \<Rightarrow> untyped_item \<Rightarrow> product option" where
  "find_untyped ps item = find (\<lambda>p. p_id p = u_product_id item) ps"

fun validate_untyped :: "product list \<Rightarrow> untyped_item list \<Rightarrow> response option" where
  "validate_untyped ps [] = None"
| "validate_untyped ps (item # items) =
     (case find_untyped ps item of
        None \<Rightarrow> Some (error_response 404 (''Product '' @ u_product_id item @ '' not found''))
      | Some product \<Rightarrow>
          if js_less (Num (stock product)) (to_number (u_quantity item))
          then Some (error_response 400
                 (''Insufficient stock for '' @ p_name product @ ''. Available: ''
                    @ string_of_int (stock product)))
          else validate_untyped ps items)"

fun totalAmount_untyped :: "product list \<Rightarrow> untyped_item list \<Rightarrow> js_number \<Rightarrow> js_number" where
  "totalAmount_untyped ps [] acc = acc"
| "totalAmount_untyped ps (item # items) acc =
     (case find_untyped ps item of
        None \<Rightarrow> totalAmount_untyped ps items acc
      | Some product \<Rightarrow>
          totalAmount_untyped ps items
            (js_add acc (js_mul (Num (price product)) (to_number (u_quantity item)))))"

text \<open>
  The insert of the order header with a total that may be \<open>NaN\<close>: \<open>JSON.stringify\<close>
  writes \<open>NaN\<close> as \<open>null\<close>, and \<open>total_amount\<close> is \<open>NOT NULL\<close>.
\<close>

definition insert_order_js :: "env \<Rightarrow> uuid \<Rightarrow> js_number \<Rightarrow> store \<Rightarrow> order option \<times> store" where
  "insert_order_js e uid amount s =
     (case amount of
        NaN \<Rightarrow> (None, logged InsertOrder s)
      | Num a \<Rightarrow> insert_order e uid a s)"

text \<open>The objects that \<open>items.map(...)\<close> of lines 136 to 144 builds from such entries.\<close>

record untyped_row =
  ur_order_id :: uuid
  ur_product_id :: uuid
  ur_quantity :: js_quantity
  ur_price :: int

fun orderItems_untyped ::
  "product list \<Rightarrow> uuid \<Rightarrow> untyped_item list \<Rightarrow> untyped_row list option" where
  "orderItems_untyped ps oid [] = Some []"
| "orderItems_untyped ps oid (item # items) =
     (case find_untyped ps item of
        None \<Rightarrow> None
      | Some product \<Rightarrow>
          map_option
            (\<lambda>rows. \<lparr>ur_order_id = oid, ur_product_id = u_product_id item,
                     ur_quantity = u_quantity item, ur_price = price product\<rparr> # rows)
            (orderItems_untyped ps oid items))"

text \<open>
  The insert of such objects: \<open>quantity integer NOT NULL\<close> refuses the statement when a
  quantity is absent or \<open>null\<close>; otherwise the rows are those of \<open>insert_order_items\<close>.
\<close>

fun row_of :: "untyped_row \<Rightarrow> order_item option" where
  "row_of r =
     (case ur_quantity r of
        QInt n \<Rightarrow> Some \<lparr>oi_order_id = ur_order_id r, oi_product_id = ur_product_id r,
                        oi_quantity = n, oi_price = ur_price r\<rparr>
      | QUndefined \<Rightarrow> None
      | QNull \<Rightarrow> None)"

definition insert_order_items_js :: "env \<Rightarrow> untyped_row list \<Rightarrow> store \<Rightarrow> bool \<times> store" where
  "insert_order_items_js e rows s =
     (case those (map row_of rows) of
        None \<Rightarrow> (False, logged InsertOrderItems s)
      | Some typed \<Rightarrow> insert_order_items e typed s)"

text \<open>
  The update of the stock to a value that may be \<open>NaN\<close>: it is sent as \<open>null\<close>, and
  \<open>stock\<close> is \<open>NOT NULL\<close>.
\<close>

definition update_stock_js :: "bool \<Rightarrow> uuid \<Rightarrow> js_number \<Rightarrow> store \<Rightarrow> store" where
  "update_stock_js ok pid v s =
     (case v of
        NaN \<Rightarrow> logged UpdateProduct s
      | Num n \<Rightarrow> update_stock ok pid n s)"

fun decrement_stock_untyped ::
  "bool list \<Rightarrow> product list \<Rightarrow> untyped_item list \<Rightarrow> store \<Rightarrow> store" where
  "decrement_stock_untyped oks ps [] s = s"
| "decrement_stock_untyped oks ps (item # items) s =
     (case find_untyped ps item of
        None \<Rightarrow> decrement_stock_untyped oks ps items s
      | Some product \<Rightarrow>
          decrement_stock_untyped (tl oks) ps items
            (update_stock_js (case oks of [] \<Rightarrow> True | ok # _ \<Rightarrow> ok)
               (u_product_id item)
               (js_sub (Num (stock product)) (to_number (u_quantity item))) s))"

definition commit_untyped ::
  "env \<Rightarrow> uuid \<Rightarrow> product list \<Rightarrow> untyped_item list \<Rightarrow> store \<Rightarrow> response \<times> store" where
  "commit_untyped e uid ps items s =
     (case insert_order_js e uid (totalAmount_untyped ps items (Num 0)) s of
        (None, s1) \<Rightarrow> (error_response 500 ''Failed to create order'', s1)
      | (Some ord, s1) \<Rightarrow>
          (case orderItems_untyped ps (o_id ord) items of
             None \<Rightarrow> (caught, s1)
           | Some rows \<Rightarrow>
               (case insert_order_items_js e rows s1 of
                  (False, s2) \<Rightarrow>
                    (error_response 500 ''Failed to create order items'',
                     delete_order e (o_id ord) s2)
                | (True, s2) \<Rightarrow>
                    (\<lparr>status_code = 200, body = Success ord\<rparr>,
                     decrement_stock_untyped (update_oks e) ps items s2))))"

definition after_fetch_untyped ::
  "env \<Rightarrow> uuid \<Rightarrow> product list option \<Rightarrow> untyped_item list \<Rightarrow> store \<Rightarrow> response \<times> store" where
  "after_fetch_untyped e uid fetched items s =
     (case fetched of
        None \<Rightarrow> (error_response 500 ''Failed to fetch products'', s)
      | Some ps \<Rightarrow>
          (case validate_untyped ps items of
             Some r \<Rightarrow> (r, s)
           | None \<Rightarrow> commit_untyped e uid ps items s))"

section \<open>The function from the body of the request on\<close>

text \<open>
  Lines 56 to 177, for a caller already authenticated as \<open>uid\<close>. On an array with a
  \<open>null\<close> entry, \<open>item.product_id\<close> of line 68 throws before the store is reached.
\<close>

definition place_order :: "env \<Rightarrow> uuid \<Rightarrow> request_body \<Rightarrow> store \<Rightarrow> response \<times> store" where
  "place_order e uid b s =
     (case b of
        BadJson \<Rightarrow> (caught, s)
      | Body Falsy \<Rightarrow> (error_response 400 ''Cart is empty'', s)
      | Body (NotArray zero_length) \<Rightarrow>
          if zero_length then (error_response 400 ''Cart is empty'', s) else (caught, s)
      | Body (ItemList items) \<Rightarrow>
          if items = [] then (error_response 400 ''Cart is empty'', s)
          else (case select_products_in e (map product_id items) s of
                  (fetched, s1) \<Rightarrow> after_fetch e uid fetched items s1)
      | Body (UntypedList entries) \<Rightarrow>
          if entries = [] then (error_response 400 ''Cart is empty'', s)
          else if None \<in> set entries then (caught, s)
          else (case select_products_in e (map u_product_id (map the entries)) s of
                  (fetched, s1) \<Rightarrow> after_fetch_untyped e uid fetched (map the entries) s1))"

text \<open>
  Two invocations whose reads of the products are both answered before either goes on:
  each \<open>await\<close> of the function is a point where the other invocation can run.
\<close>

definition place_order_race ::
  "env \<Rightarrow> uuid \<Rightarrow> cart_item list \<Rightarrow> env \<Rightarrow> uuid \<Rightarrow> cart_item list \<Rightarrow> store
     \<Rightarrow> response \<times> response \<times> store" where
  "place_order_race e1 uid1 items1 e2 uid2 items2 s =
     (case select_products_in e1 (map product_id items1) s of (fetched1, sa) \<Rightarrow>
      case select_products_in e2 (map product_id items2) sa of (fetched2, sb) \<Rightarrow>
      case after_fetch e1 uid1 fetched1 items1 sb of (r1, sc) \<Rightarrow>
      case after_fetch e2 uid2 fetched2 items2 sc of (r2, sd) \<Rightarrow> (r1, r2, sd))"

section \<open>Notions the properties are stated with\<close>

text \<open>A line of the request that passes both checks of the first loop on the products \<open>ps\<close>.\<close>

definition line_ok :: "product list \<Rightarrow> cart_item \<Rightarrow> bool" where
  "line_ok ps item =
     (case find_product ps item of None \<Rightarrow> False | Some p \<Rightarrow> quantity item \<le> stock p)"

text \<open>
  The foreign key \<open>order_items.order_id REFERENCES orders(id)\<close> as a property of a store:
  every line item belongs to an order that is there.
\<close>

definition fk_ok :: "store \<Rightarrow> bool" where
  "fk_ok s = list_all (\<lambda>row. oi_order_id row \<in> set (map o_id (orders s))) (order_items s)"

text \<open>The line items of one order, and what they add up to.\<close>

definition items_of :: "uuid \<Rightarrow> store \<Rightarrow> order_item list" where
  "items_of oid s = filter (\<lambda>row. oi_order_id row = oid) (order_items s)"


text \<open>The stock of a product in a store, if the product is there.\<close>

definition stock_of :: "uuid \<Rightarrow> store \<Rightarrow> int option" where
  "stock_of pid s = map_option stock (find (\<lambda>p. p_id p = pid) (products s))"

text \<open>A catalog of two products with no orders yet, and a store that answers every call.\<close>

definition demo_store :: store where
  "demo_store =
     \<lparr>products = [\<lparr>p_id = ''A'', p_name = ''Widget'', price = 1000, stock = 5\<rparr>,
                  \<lparr>p_id = ''B'', p_name = ''Gadget'', price = 2000, stock = 2\<rparr>],
      orders = [], order_items = [], accesses = []\<rparr>"

definition demo_env :: env where
  "demo_env =
     \<lparr>fetch_ok = True, order_insert_ok = True, new_order_id = ''o1'',
      items_insert_ok = True, delete_ok = True, update_oks = []\<rparr>"

text \<open>A catalog whose one product is down to its last unit.\<close>

definition last_unit_store :: store where
  "last_unit_store =
     \<lparr>products = [\<lparr>p_id = ''P'', p_name = ''Lamp'', price = 1500, stock = 1\<rparr>],
      orders = [], order_items = [], accesses = []\<rparr>"

text \<open>A typed entry, seen as an entry that need not be typed.\<close>

definition as_untyped :: "cart_item \<Rightarrow> untyped_item" where
  "as_untyped item = \<lparr>u_product_id = product_id item, u_quantity = QInt (quantity item)\<rparr>"

definition as_untyped_row :: "order_item \<Rightarrow> untyped_row" where
  "as_untyped_row row =
     \<lparr>ur_order_id = oi_order_id row, ur_product_id = oi_product_id row,
      ur_quantity = QInt (oi_quantity row), ur_price = oi_price row\<rparr>"

text \<open>\<open>CHECK (stock >= 0)\<close> of the products table as a property of a store.\<close>

definition stock_nonneg :: "store \<Rightarrow> bool" where
  "stock_nonneg s = list_all (\<lambda>p. 0 \<le> stock p) (products s)"

section \<open>Auxiliary facts\<close>

lemma find_filter_member:
  "x \<in> set ids \<Longrightarrow> find (\<lambda>p. p_id p = x) (filter (\<lambda>p. p_id p \<in> set ids) ps) = find (\<lambda>p. p_id p = x) ps"
  by (induction ps) auto

lemma find_product_products_in:
  "product_id item \<in> set ids \<Longrightarrow> find_product (products_in ids s) item = find_product (products s) item"
  by (simp add: find_product_def products_in_def find_filter_member)

lemma snapshot_same:
  "item \<in> set items \<Longrightarrow>
     find_product (products_in (map product_id items) s) item = find_product (products s) item"
  by (simp add: find_product_products_in)

lemma validate_cong:
  "(\<And>item. item \<in> set items \<Longrightarrow> find_product ps item = find_product qs item)
   \<Longrightarrow> validate ps items = validate qs items"
  by (induction items) (auto split: option.splits)

lemma totalAmount_cong:
  "(\<And>item. item \<in> set items \<Longrightarrow> find_product ps item = find_product qs item)
   \<Longrightarrow> totalAmount ps items acc = totalAmount qs items acc"
  by (induction items arbitrary: acc) (auto split: option.splits)

lemma orderItems_cong:
  "(\<And>item. item \<in> set items \<Longrightarrow> find_product ps item = find_product qs item)
   \<Longrightarrow> orderItems ps oid items = orderItems qs oid items"
  by (induction items) (auto split: option.splits)

lemma validate_None_iff: "validate ps items = None \<longleftrightarrow> list_all (line_ok ps) items"
  by (induction items) (auto simp: line_ok_def split: option.splits)

lemma validate_Some_status:
  "validate ps items = Some r \<Longrightarrow> status_code r = 404 \<or> status_code r = 400"
  by (induction items) (auto simp: error_response_def split: option.splits if_splits)

lemma validate_first_missing:
  "list_all (line_ok ps) pre \<Longrightarrow> find_product ps item = None \<Longrightarrow>
   validate ps (pre @ item # rest)
     = Some (error_response 404 (''Product '' @ product_id item @ '' not found''))"
  by (induction pre) (auto simp: line_ok_def split: option.splits)

lemma validate_first_short:
  "list_all (line_ok ps) pre \<Longrightarrow> find_product ps item = Some p \<Longrightarrow> stock p < quantity item \<Longrightarrow>
   validate ps (pre @ item # rest)
     = Some (error_response 400
         (''Insufficient stock for '' @ p_name p @ ''. Available: '' @ string_of_int (stock p)))"
  by (induction pre) (auto simp: line_ok_def split: option.splits)

lemma validate_first_failure:
  "\<not> list_all (line_ok ps) items \<Longrightarrow>
   \<exists>before bad after.
      items = before @ bad # after \<and> list_all (line_ok ps) before \<and> \<not> line_ok ps bad
      \<and> validate ps items
          = Some (case find_product ps bad of
                    None \<Rightarrow> error_response 404 (''Product '' @ product_id bad @ '' not found'')
                  | Some q \<Rightarrow>
                      error_response 400
                        (''Insufficient stock for '' @ p_name q @ ''. Available: ''
                           @ string_of_int (stock q)))"
proof (induction items)
  case Nil
  then show ?case by simp
next
  case (Cons a items)
  show ?case
  proof (cases "line_ok ps a")
    case True
    with Cons.prems have "\<not> list_all (line_ok ps) items" by simp
    from Cons.IH [OF this] obtain before bad after where
      d: "items = before @ bad # after" and b: "list_all (line_ok ps) before"
      and n: "\<not> line_ok ps bad"
      and v: "validate ps items
          = Some (case find_product ps bad of
                    None \<Rightarrow> error_response 404 (''Product '' @ product_id bad @ '' not found'')
                  | Some q \<Rightarrow>
                      error_response 400
                        (''Insufficient stock for '' @ p_name q @ ''. Available: ''
                           @ string_of_int (stock q)))"
      by blast
    from True have "validate ps (a # items) = validate ps items"
      by (auto simp: line_ok_def split: option.splits)
    with d b n v True show ?thesis
      by (intro exI [of _ "a # before"] exI [of _ bad] exI [of _ after]) simp
  next
    case False
    then have "validate ps (a # items)
          = Some (case find_product ps a of
                    None \<Rightarrow> error_response 404 (''Product '' @ product_id a @ '' not found'')
                  | Some q \<Rightarrow>
                      error_response 400
                        (''Insufficient stock for '' @ p_name q @ ''. Available: ''
                           @ string_of_int (stock q)))"
      by (auto simp: line_ok_def split: option.splits)
    with False show ?thesis
      by (intro exI [of _ "[]"] exI [of _ a] exI [of _ items]) simp
  qed
qed

lemma logged_frame [simp]:
  "products (logged a s) = products s"
  "orders (logged a s) = orders s"
  "order_items (logged a s) = order_items s"
  by (simp_all add: logged_def)

lemma update_stock_frame [simp]:
  "orders (update_stock ok pid v s) = orders s"
  "order_items (update_stock ok pid v s) = order_items s"
  by (simp_all add: update_stock_def logged_def)

lemma decrement_stock_frame [simp]:
  "orders (decrement_stock oks ps items s) = orders s"
  "order_items (decrement_stock oks ps items s) = order_items s"
  by (induction items arbitrary: oks s) (auto split: option.splits)


lemma orderItems_rows:
  "orderItems ps oid items = Some rows \<Longrightarrow>
     list_all2 (\<lambda>row item. oi_order_id row = oid \<and> oi_product_id row = product_id item
        \<and> oi_quantity row = quantity item
        \<and> map_option price (find_product ps item) = Some (oi_price row)) rows items"
  by (induction items arbitrary: rows) (auto split: option.splits)

lemma commit_200:
  assumes "commit e uid ps items s = (r, s')" and "status_code r = 200"
  shows "r = \<lparr>status_code = 200, body = Success \<lparr>o_id = new_order_id e, user_id = uid,
                 total_amount = totalAmount ps items 0, status = ''pending''\<rparr>\<rparr>
         \<and> new_order_id e \<notin> set (map o_id (orders s))
         \<and> (\<exists>rows. orderItems ps (new_order_id e) items = Some rows
               \<and> orders s' = orders s @ [\<lparr>o_id = new_order_id e, user_id = uid,
                     total_amount = totalAmount ps items 0, status = ''pending''\<rparr>]
               \<and> order_items s' = order_items s @ rows)"
  using assms
  by (auto simp: commit_def insert_order_def insert_order_items_def Let_def logged_def
        error_response_def caught_def split: if_splits option.splits)

lemma place_order_items:
  "items \<noteq> [] \<Longrightarrow>
   place_order e uid (Body (ItemList items)) s =
     after_fetch e uid (if fetch_ok e then Some (products_in (map product_id items) s) else None)
       items (logged SelectProducts s)"
  by (simp add: place_order_def select_products_in_def)

lemma place_order_rejected:
  assumes "\<not> list_all (line_ok (products s)) items"
      and "place_order e uid (Body (ItemList items)) s = (r, s')"
  shows "status_code r \<noteq> 200 \<and> s' = logged SelectProducts s"
proof -
  from assms(1) have ne: "items \<noteq> []" by auto
  have v: "validate (products_in (map product_id items) s) items = validate (products s) items"
    by (rule validate_cong) (rule snapshot_same)
  from assms(1) obtain r0 where r0: "validate (products s) items = Some r0"
    using validate_None_iff [of "products s" items] by (cases "validate (products s) items") auto
  from validate_Some_status [OF r0] have "status_code r0 \<noteq> 200" by auto
  with assms(2) ne v r0 show ?thesis
    by (auto simp: place_order_items after_fetch_def error_response_def split: if_splits)
qed

lemma place_order_rejected_response:
  assumes "\<not> list_all (line_ok (products s)) items"
      and "place_order e uid (Body (ItemList items)) s = (r, s')"
  shows "\<not> fetch_ok e \<longrightarrow> r = error_response 500 ''Failed to fetch products''"
    and "fetch_ok e \<longrightarrow> validate (products s) items = Some r"
proof -
  from assms(1) have ne: "items \<noteq> []" by auto
  have v: "validate (products_in (map product_id items) s) items = validate (products s) items"
    by (rule validate_cong) (rule snapshot_same)
  from assms(1) obtain r0 where r0: "validate (products s) items = Some r0"
    using validate_None_iff [of "products s" items] by (cases "validate (products s) items") auto
  from assms(2) ne show "\<not> fetch_ok e \<longrightarrow> r = error_response 500 ''Failed to fetch products''"
    by (auto simp: place_order_items after_fetch_def)
  from assms(2) ne v r0 show "fetch_ok e \<longrightarrow> validate (products s) items = Some r"
    by (auto simp: place_order_items after_fetch_def)
qed

lemma place_order_200:
  assumes "place_order e uid (Body (ItemList items)) s = (r, s')"
      and "status_code r = 200"
  shows "items \<noteq> [] \<and> fetch_ok e \<and> list_all (line_ok (products s)) items
         \<and> commit e uid (products_in (map product_id items) s) items (logged SelectProducts s)
             = (r, s')"
proof -
  have ok: "list_all (line_ok (products s)) items"
    using place_order_rejected [OF _ assms(1)] assms(2) by blast
  have ne: "items \<noteq> []"
    using assms by (auto simp: place_order_def error_response_def)
  have v: "validate (products_in (map product_id items) s) items = None"
    using ok validate_None_iff [of "products s" items]
      validate_cong [of items "products_in (map product_id items) s" "products s"] snapshot_same
    by metis
  from assms ne v show ?thesis
    using ok by (auto simp: place_order_items after_fetch_def error_response_def split: if_splits)
qed

lemma placed_rows:
  assumes "place_order e uid (Body (ItemList items)) s = (r, s')"
      and "status_code r = 200"
      and "fk_ok s"
  shows "\<exists>rows. body r = Success \<lparr>o_id = new_order_id e, user_id = uid,
                      total_amount = totalAmount (products s) items 0, status = ''pending''\<rparr>
           \<and> orders s' = orders s @ [\<lparr>o_id = new_order_id e, user_id = uid,
                      total_amount = totalAmount (products s) items 0, status = ''pending''\<rparr>]
           \<and> orderItems (products s) (new_order_id e) items = Some rows
           \<and> items_of (new_order_id e) s' = rows"
proof -
  let ?ps = "products_in (map product_id items) s"
  from place_order_200 [OF assms(1,2)]
  have c: "commit e uid ?ps items (logged SelectProducts s) = (r, s')" by simp
  have t: "totalAmount ?ps items 0 = totalAmount (products s) items 0"
    by (rule totalAmount_cong) (rule snapshot_same)
  have o: "orderItems ?ps (new_order_id e) items = orderItems (products s) (new_order_id e) items"
    by (rule orderItems_cong) (rule snapshot_same)
  from commit_200 [OF c assms(2)] obtain rows where
    r: "body r = Success \<lparr>o_id = new_order_id e, user_id = uid,
                      total_amount = totalAmount ?ps items 0, status = ''pending''\<rparr>"
    and fresh: "new_order_id e \<notin> set (map o_id (orders s))"
    and rows: "orderItems ?ps (new_order_id e) items = Some rows"
    and os: "orders s' = orders s @ [\<lparr>o_id = new_order_id e, user_id = uid,
                      total_amount = totalAmount ?ps items 0, status = ''pending''\<rparr>]"
    and its: "order_items s' = order_items s @ rows"
    by (auto simp: logged_def)
  have "oi_order_id row \<noteq> new_order_id e" if "row \<in> set (order_items s)" for row
  proof -
    from assms(3) that have "oi_order_id row \<in> set (map o_id (orders s))"
      by (simp add: fk_ok_def list_all_iff)
    with fresh show ?thesis by metis
  qed
  then have old: "filter (\<lambda>row. oi_order_id row = new_order_id e) (order_items s) = []"
    by (simp add: filter_empty_conv)
  from orderItems_rows [OF rows] have "list_all (\<lambda>row. oi_order_id row = new_order_id e) rows"
    by (auto simp: list_all_iff list_all2_conv_all_nth in_set_conv_nth)
  then have new: "filter (\<lambda>row. oi_order_id row = new_order_id e) rows = rows"
    by (simp add: list_all_iff)
  from r os rows its old new t o show ?thesis
    by (auto simp: items_of_def)
qed

lemma insert_order_oks [simp]:
  "insert_order (e\<lparr>update_oks := oks\<rparr>) uid amount s = insert_order e uid amount s"
  by (simp add: insert_order_def)

lemma insert_order_items_oks [simp]:
  "insert_order_items (e\<lparr>update_oks := oks\<rparr>) rows s = insert_order_items e rows s"
  by (simp add: insert_order_items_def)

lemma delete_order_oks [simp]:
  "delete_order (e\<lparr>update_oks := oks\<rparr>) oid s = delete_order e oid s"
  by (simp add: delete_order_def)



lemma insert_order_js_oks [simp]:
  "insert_order_js (e\<lparr>update_oks := oks\<rparr>) uid amount s = insert_order_js e uid amount s"
  by (simp add: insert_order_js_def split: js_number.splits)

lemma insert_order_items_js_oks [simp]:
  "insert_order_items_js (e\<lparr>update_oks := oks\<rparr>) rows s = insert_order_items_js e rows s"
  by (simp add: insert_order_items_js_def split: option.splits)



subsection \<open>Typed entries read as untyped ones\<close>

lemma as_untyped_sel [simp]:
  "u_product_id (as_untyped item) = product_id item"
  "u_quantity (as_untyped item) = QInt (quantity item)"
  by (simp_all add: as_untyped_def)

lemma find_untyped_as_untyped [simp]: "find_untyped ps (as_untyped item) = find_product ps item"
  by (simp add: find_untyped_def find_product_def)

lemma validate_untyped_typed:
  "validate_untyped ps (map as_untyped items) = validate ps items"
  by (induction items) (auto split: option.splits)

lemma totalAmount_untyped_typed:
  "totalAmount_untyped ps (map as_untyped items) (Num acc) = Num (totalAmount ps items acc)"
  by (induction items arbitrary: acc) (auto split: option.splits)

lemma orderItems_untyped_typed:
  "orderItems_untyped ps oid (map as_untyped items)
     = map_option (map as_untyped_row) (orderItems ps oid items)"
  by (induction items) (auto simp: as_untyped_row_def option.map_comp o_def split: option.splits)

lemma those_row_of_typed: "those (map row_of (map as_untyped_row rows)) = Some rows"
  by (induction rows) (auto simp: as_untyped_row_def)

lemma update_stock_js_frame [simp]:
  "orders (update_stock_js ok pid v s) = orders s"
  "order_items (update_stock_js ok pid v s) = order_items s"
  by (simp_all add: update_stock_js_def split: js_number.splits)

lemma decrement_stock_untyped_frame [simp]:
  "orders (decrement_stock_untyped oks ps items s) = orders s"
  "order_items (decrement_stock_untyped oks ps items s) = order_items s"
  by (induction items arbitrary: oks s) (auto split: option.splits)

lemma decrement_stock_untyped_typed:
  "decrement_stock_untyped oks ps (map as_untyped items) s = decrement_stock oks ps items s"
  by (induction items arbitrary: oks s) (auto simp: update_stock_js_def split: option.splits)

lemma commit_untyped_typed:
  "commit_untyped e uid ps (map as_untyped items) s = commit e uid ps items s"
  by (simp add: commit_untyped_def commit_def insert_order_js_def totalAmount_untyped_typed
        orderItems_untyped_typed insert_order_items_js_def those_row_of_typed
        decrement_stock_untyped_typed del: map_map
        split: prod.splits option.splits bool.splits)

lemma place_order_untyped_typed:
  "place_order e uid (Body (UntypedList (map (\<lambda>item. Some (as_untyped item)) items))) s
     = place_order e uid (Body (ItemList items)) s"
proof -
  have ids: "map u_product_id (map as_untyped items) = map product_id items"
    by (simp add: as_untyped_def)
  have "map the (map (\<lambda>item. Some (as_untyped item)) items) = map as_untyped items"
    by simp
  moreover have "None \<notin> set (map (\<lambda>item. Some (as_untyped item)) items)"
    by auto
  ultimately show ?thesis
    unfolding place_order_def
    by (simp add: ids after_fetch_untyped_def after_fetch_def validate_untyped_typed
          commit_untyped_typed del: map_map split: prod.splits option.splits)
qed

subsection \<open>Constraints of the schema that every call preserves\<close>

lemma decrement_stock_fk: "fk_ok (decrement_stock oks ps items s) = fk_ok s"
  by (simp add: fk_ok_def)

lemma commit_fk_ok: "fk_ok s \<Longrightarrow> fk_ok (snd (commit e uid ps items s))"
  by (auto simp: commit_def insert_order_def insert_order_items_def item_row_ok_def
        delete_order_def Let_def fk_ok_def list_all_iff logged_def
        split: option.splits if_splits)

lemma commit_untyped_fk_ok: "fk_ok s \<Longrightarrow> fk_ok (snd (commit_untyped e uid ps items s))"
  by (auto simp: commit_untyped_def insert_order_js_def insert_order_def
        insert_order_items_js_def insert_order_items_def item_row_ok_def
        delete_order_def Let_def fk_ok_def list_all_iff logged_def
        split: option.splits if_splits js_number.splits)

lemma place_order_fk_ok: "fk_ok s \<Longrightarrow> fk_ok (snd (place_order e uid b s))"
proof -
  assume fk: "fk_ok s"
  then have l: "fk_ok (logged SelectProducts s)" by (simp add: fk_ok_def)
  show ?thesis
    using fk l commit_fk_ok [OF l] commit_untyped_fk_ok [OF l]
    by (auto simp: place_order_def select_products_in_def after_fetch_def
          after_fetch_untyped_def
          split: request_body.splits items_field.splits option.splits)
qed

lemma update_stock_nonneg: "stock_nonneg s \<Longrightarrow> stock_nonneg (update_stock ok pid v s)"
  by (auto simp: stock_nonneg_def update_stock_def logged_def list_all_iff)

lemma decrement_stock_nonneg:
  "stock_nonneg s \<Longrightarrow> stock_nonneg (decrement_stock oks ps items s)"
  by (induction items arbitrary: oks s) (auto simp: update_stock_nonneg split: option.splits)

lemma commit_stock_nonneg: "stock_nonneg s \<Longrightarrow> stock_nonneg (snd (commit e uid ps items s))"
proof -
  assume a: "stock_nonneg s"
  have "stock_nonneg t" if "products t = products s" for t
    using a that by (simp add: stock_nonneg_def)
  then show ?thesis
    by (auto simp: commit_def insert_order_def insert_order_items_def delete_order_def Let_def
          intro!: decrement_stock_nonneg split: option.splits if_splits)
qed

lemma after_fetch_stock_nonneg:
  "stock_nonneg s \<Longrightarrow> stock_nonneg (snd (after_fetch e uid fetched items s))"
  by (auto simp: after_fetch_def commit_stock_nonneg split: option.splits)

lemma update_stock_js_nonneg:
  "stock_nonneg s \<Longrightarrow> stock_nonneg (update_stock_js ok pid v s)"
proof (cases v)
  case (Num n)
  then show ?thesis if "stock_nonneg s"
    using that by (simp add: update_stock_js_def update_stock_nonneg)
next
  case NaN
  then show ?thesis if "stock_nonneg s"
    using that by (simp add: update_stock_js_def stock_nonneg_def logged_def)
qed

lemma decrement_stock_untyped_nonneg:
  "stock_nonneg s \<Longrightarrow> stock_nonneg (decrement_stock_untyped oks ps items s)"
  by (induction items arbitrary: oks s) (auto simp: update_stock_js_nonneg split: option.splits)

lemma commit_untyped_stock_nonneg:
  "stock_nonneg s \<Longrightarrow> stock_nonneg (snd (commit_untyped e uid ps items s))"
proof -
  assume a: "stock_nonneg s"
  have "stock_nonneg t" if "products t = products s" for t
    using a that by (simp add: stock_nonneg_def)
  then show ?thesis
    by (auto simp: commit_untyped_def insert_order_js_def insert_order_def
          insert_order_items_js_def insert_order_items_def delete_order_def Let_def
          intro!: decrement_stock_untyped_nonneg split: option.splits if_splits js_number.splits)
qed

lemma after_fetch_untyped_stock_nonneg:
  "stock_nonneg s \<Longrightarrow> stock_nonneg (snd (after_fetch_untyped e uid fetched items s))"
  by (auto simp: after_fetch_untyped_def commit_untyped_stock_nonneg split: option.splits)

lemma place_order_stock_nonneg:
  "stock_nonneg s \<Longrightarrow> stock_nonneg (snd (place_order e uid b s))"
proof -
  assume a: "stock_nonneg s"
  then have l: "stock_nonneg (logged SelectProducts s)" by (simp add: stock_nonneg_def)
  from after_fetch_stock_nonneg [OF l] after_fetch_untyped_stock_nonneg [OF l] a show ?thesis
    by (auto simp: place_order_def select_products_in_def
          split: request_body.splits items_field.splits)
qed

lemma place_order_race_stock_nonneg:
  "stock_nonneg s \<Longrightarrow>
   stock_nonneg (snd (snd (place_order_race e1 uid1 items1 e2 uid2 items2 s)))"
proof -
  assume a: "stock_nonneg s"
  then have "stock_nonneg (logged SelectProducts (logged SelectProducts s))"
    by (simp add: stock_nonneg_def)
  from after_fetch_stock_nonneg [OF after_fetch_stock_nonneg [OF this]] show ?thesis
    by (simp add: place_order_race_def select_products_in_def split: prod.splits)
       (metis snd_conv)
qed

subsection \<open>The stock updates of a request whose entries name distinct products\<close>

lemma find_map_stock:
  "map_option stock (find (\<lambda>p. p_id p = pid)
      (map (\<lambda>p. if p_id p = pid' then p\<lparr>stock := v\<rparr> else p) ps))
   = (if pid = pid' then map_option (\<lambda>_. v) (find (\<lambda>p. p_id p = pid) ps)
      else map_option stock (find (\<lambda>p. p_id p = pid) ps))"
  by (induction ps) auto

lemma stock_of_update_stock:
  "stock_of pid (update_stock ok pid' v s)
   = (if ok \<and> 0 \<le> v \<and> pid = pid' then map_option (\<lambda>_. v) (stock_of pid s) else stock_of pid s)"
  by (auto simp: stock_of_def update_stock_def logged_def find_map_stock option.map_comp o_def)

lemma decrement_stock_other:
  "pid \<notin> set (map product_id items) \<Longrightarrow>
   stock_of pid (decrement_stock oks ps items s) = stock_of pid s"
  by (induction items arbitrary: oks s) (auto simp: stock_of_update_stock split: option.splits)

lemma decrement_stock_distinct:
  assumes "distinct (map product_id items)" and "list_all (line_ok ps) items"
      and "list_all (\<lambda>ok. ok) oks" and "item \<in> set items"
      and "find_product ps item = Some p"
  shows "stock_of (product_id item) (decrement_stock oks ps items s)
         = map_option (\<lambda>_. stock p - quantity item) (stock_of (product_id item) s)"
  using assms
proof (induction items arbitrary: oks s)
  case Nil
  then show ?case by simp
next
  case (Cons a items)
  from Cons.prems(2) obtain q where q: "find_product ps a = Some q" "quantity a \<le> stock q"
    by (auto simp: line_ok_def split: option.splits)
  have tl: "list_all (\<lambda>ok. ok) (tl oks)" using Cons.prems(3) by (cases oks) auto
  have hd: "(case oks of [] \<Rightarrow> True | ok # _ \<Rightarrow> ok)" using Cons.prems(3) by (cases oks) auto
  show ?case
  proof (cases "item = a")
    case True
    with Cons.prems(1) have "product_id item \<notin> set (map product_id items)" by simp
    from decrement_stock_other [OF this] True q Cons.prems(5) hd show ?thesis
      by (simp add: stock_of_update_stock)
  next
    case False
    with Cons.prems(4) have mem: "item \<in> set items" by simp
    from Cons.prems(1) have "product_id a \<notin> product_id ` set items" by simp
    with mem have ne: "product_id item \<noteq> product_id a" by (metis imageI)
    from Cons.prems(1,2) have "distinct (map product_id items)" "list_all (line_ok ps) items"
      by simp_all
    from Cons.IH [OF this tl mem Cons.prems(5)] q ne show ?thesis
      by (simp add: stock_of_update_stock)
  qed
qed

lemma stock_of_find_product:
  "find_product (products s) item = Some p \<Longrightarrow> stock_of (product_id item) s = Some (stock p)"
  by (simp add: stock_of_def find_product_def)

lemma stock_of_frame:
  "products t = products s \<Longrightarrow> stock_of pid t = stock_of pid s"
  by (simp add: stock_of_def)

lemma distinct_entries_decrement:
  assumes "place_order e uid (Body (ItemList items)) s = (r, s')"
      and "status_code r = 200"
      and "distinct (map product_id items)"
      and "list_all (\<lambda>ok. ok) (update_oks e)"
      and "item \<in> set items"
      and "stock_of (product_id item) s = Some n"
  shows "stock_of (product_id item) s' = Some (n - quantity item)"
proof -
  let ?ps = "products_in (map product_id items) s"
  from place_order_200 [OF assms(1,2)]
  have ok: "list_all (line_ok (products s)) items"
    and c: "commit e uid ?ps items (logged SelectProducts s) = (r, s')" by simp_all
  from ok assms(5) obtain p where p: "find_product (products s) item = Some p"
    by (auto simp: line_ok_def list_all_iff split: option.splits)
  with assms(6) have n: "stock p = n" by (simp add: stock_of_find_product)
  have same: "find_product ?ps it = find_product (products s) it" if "it \<in> set items" for it
    using that by (rule snapshot_same)
  have ok': "list_all (line_ok ?ps) items"
    using ok same by (simp add: list_all_iff line_ok_def)
  from c assms(2) obtain t where t: "s' = decrement_stock (update_oks e) ?ps items t"
      and pt: "products t = products s"
    by (auto simp: commit_def insert_order_def insert_order_items_def Let_def
          error_response_def caught_def split: option.splits if_splits)
  from decrement_stock_distinct [OF assms(3) ok' assms(4,5), of p t] p same [OF assms(5)]
  have "stock_of (product_id item) s' = map_option (\<lambda>_. stock p - quantity item)
          (stock_of (product_id item) t)"
    using t by simp
  with stock_of_frame [OF pt] assms(6) n show ?thesis by simp
qed

subsection \<open>Bodies that are answered before the store is reached\<close>

lemma empty_items_no_store_access:
  "place_order e uid (Body (ItemList [])) s = (error_response 400 ''Cart is empty'', s)"
  "place_order e uid (Body (UntypedList [])) s = (error_response 400 ''Cart is empty'', s)"
  "place_order e uid (Body Falsy) s = (error_response 400 ''Cart is empty'', s)"
  "place_order e uid (Body (NotArray True)) s = (error_response 400 ''Cart is empty'', s)"
  by (simp_all add: place_order_def)

lemma thrown_no_store_access:
  "place_order e uid BadJson s = (caught, s)"
  "place_order e uid (Body (NotArray False)) s = (caught, s)"
  "entries \<noteq> [] \<Longrightarrow> None \<in> set entries \<Longrightarrow>
     place_order e uid (Body (UntypedList entries)) s = (caught, s)"
  by (simp_all add: place_order_def)

subsection \<open>Evaluation on concrete requests\<close>

lemmas run_defs =
  place_order_def place_order_race_def select_products_in_def products_in_def after_fetch_def
  commit_def insert_order_def insert_order_items_def item_row_ok_def delete_order_def
  update_stock_def logged_def find_product_def error_response_def caught_def
  after_fetch_untyped_def commit_untyped_def insert_order_js_def insert_order_items_js_def
  update_stock_js_def find_untyped_def
  string_of_int_def string_of_nat.simps demo_store_def demo_env_def Let_def

section \<open>The claims\<close>

subsection \<open>C1: Atomicity of the commit phase\<close>

text \<open>
  Claim C1 (atomicity), at two inputs where it fails. First: the one stock update is not
  answered; the call returns 200, the order and its line item are stored and the stock of the
  product is still 5. Second: the insert of the line items and the delete that should undo
  the order both fail; the call returns 500 and the order header stays, with no line item.
\<close>

theorem commit_not_atomic:
  "place_order (demo_env\<lparr>update_oks := [False]\<rparr>) ''u''
      (Body (ItemList [\<lparr>product_id = ''A'', quantity = 3\<rparr>])) demo_store
    = (\<lparr>status_code = 200, body = Success \<lparr>o_id = ''o1'', user_id = ''u'', total_amount = 3000,
          status = ''pending''\<rparr>\<rparr>,
       demo_store\<lparr>
         orders := [\<lparr>o_id = ''o1'', user_id = ''u'', total_amount = 3000, status = ''pending''\<rparr>],
         order_items := [\<lparr>oi_order_id = ''o1'', oi_product_id = ''A'', oi_quantity = 3,
                          oi_price = 1000\<rparr>],
         accesses := [SelectProducts, InsertOrder, InsertOrderItems, UpdateProduct]\<rparr>)
   \<and> place_order (demo_env\<lparr>items_insert_ok := False, delete_ok := False\<rparr>) ''u''
      (Body (ItemList [\<lparr>product_id = ''A'', quantity = 3\<rparr>])) demo_store
    = (error_response 500 ''Failed to create order items'',
       demo_store\<lparr>
         orders := [\<lparr>o_id = ''o1'', user_id = ''u'', total_amount = 3000, status = ''pending''\<rparr>],
         accesses := [SelectProducts, InsertOrder, InsertOrderItems, DeleteOrder]\<rparr>)"
  by (simp add: run_defs)

subsection \<open>C2: Two invocations racing for the last unit\<close>

text \<open>
  Claim C2 (no over-allocation under contention), at an input where it fails. A product has
  stock 1 and two invocations each ask for 1. When both reads of the catalog are answered
  before either invocation writes, both return 200 and two orders of one unit each are
  stored against the single unit; the stock ends at 0. Run one after the other, the second
  invocation is answered 400.
\<close>

theorem race_for_last_unit_both_succeed:
  "place_order_race demo_env ''u1'' [\<lparr>product_id = ''P'', quantity = 1\<rparr>]
      (demo_env\<lparr>new_order_id := ''o2''\<rparr>) ''u2'' [\<lparr>product_id = ''P'', quantity = 1\<rparr>]
      last_unit_store
    = (\<lparr>status_code = 200, body = Success \<lparr>o_id = ''o1'', user_id = ''u1'', total_amount = 1500,
          status = ''pending''\<rparr>\<rparr>,
       \<lparr>status_code = 200, body = Success \<lparr>o_id = ''o2'', user_id = ''u2'', total_amount = 1500,
          status = ''pending''\<rparr>\<rparr>,
       \<lparr>products = [\<lparr>p_id = ''P'', p_name = ''Lamp'', price = 1500, stock = 0\<rparr>],
        orders = [\<lparr>o_id = ''o1'', user_id = ''u1'', total_amount = 1500, status = ''pending''\<rparr>,
                  \<lparr>o_id = ''o2'', user_id = ''u2'', total_amount = 1500, status = ''pending''\<rparr>],
        order_items = [\<lparr>oi_order_id = ''o1'', oi_product_id = ''P'', oi_quantity = 1, oi_price = 1500\<rparr>,
                       \<lparr>oi_order_id = ''o2'', oi_product_id = ''P'', oi_quantity = 1, oi_price = 1500\<rparr>],
        accesses = [SelectProducts, SelectProducts, InsertOrder, InsertOrderItems, UpdateProduct,
                    InsertOrder, InsertOrderItems, UpdateProduct]\<rparr>)
   \<and> fst (place_order (demo_env\<lparr>new_order_id := ''o2''\<rparr>) ''u2''
          (Body (ItemList [\<lparr>product_id = ''P'', quantity = 1\<rparr>]))
          (snd (place_order demo_env ''u1'' (Body (ItemList [\<lparr>product_id = ''P'', quantity = 1\<rparr>]))
             last_unit_store)))
     = error_response 400 ''Insufficient stock for Lamp. Available: 0''"
  by (simp add: run_defs last_unit_store_def)

subsection \<open>C3: Conservation of the total\<close>



subsection \<open>C4: Amount of the stock decrement\<close>

text \<open>
  Claim C4 (stock decrement amount), at an input where it fails. Product A has stock 5 and
  the request names it twice with quantity 2. The call returns 200 and the stock of A ends
  at 3: each update writes the stock read at validation minus the quantity of its own entry,
  so the second update overwrites the first instead of adding to it.
\<close>

theorem duplicate_entries_decrement_once:
  "status_code (fst (place_order demo_env ''u''
      (Body (ItemList [\<lparr>product_id = ''A'', quantity = 2\<rparr>, \<lparr>product_id = ''A'', quantity = 2\<rparr>]))
      demo_store)) = 200
   \<and> stock_of ''A'' demo_store = Some 5
   \<and> stock_of ''A'' (snd (place_order demo_env ''u''
      (Body (ItemList [\<lparr>product_id = ''A'', quantity = 2\<rparr>, \<lparr>product_id = ''A'', quantity = 2\<rparr>]))
      demo_store)) = Some 3"
  by (simp add: run_defs stock_of_def)

subsection \<open>C5: Zero and negative quantities\<close>

text \<open>
  Claim C5 (zero or negative quantity), at two inputs where it fails. Quantity 0 passes the
  stock check; the order header is inserted, the insert of the line item is refused by
  \<open>CHECK (quantity > 0)\<close>, the header is deleted and the answer is 500. Quantity -1 gives
  a negative total, the insert of the header is refused by \<open>CHECK (total_amount >= 0)\<close>
  and the answer is 500.
\<close>

theorem nonpositive_quantity_reaches_the_store:
  "place_order demo_env ''u'' (Body (ItemList [\<lparr>product_id = ''A'', quantity = 0\<rparr>])) demo_store
    = (error_response 500 ''Failed to create order items'',
       demo_store\<lparr>accesses := [SelectProducts, InsertOrder, InsertOrderItems, DeleteOrder]\<rparr>)
   \<and> place_order demo_env ''u'' (Body (ItemList [\<lparr>product_id = ''A'', quantity = - 1\<rparr>])) demo_store
    = (error_response 500 ''Failed to create order'',
       demo_store\<lparr>accesses := [SelectProducts, InsertOrder]\<rparr>)"
  by (simp add: run_defs)

subsection \<open>C6: Insufficient stock\<close>

text \<open>
  Claim C6, as amended, for a request whose entries are typed. When some line of the request
  asks for more than the stock of its product, the call never answers 200, leaves products, orders and line items as they were,
  and reaches the store once, for the read of the catalog. When that read fails the answer
  is 500 \<open>Failed to fetch products\<close>. When it is answered, the answer of the call is the
  error of the first line of the request that fails a check: 400 with the message
  \<open>Insufficient stock for <name>. Available: <stock>\<close> of that line's product when the
  product is in the catalog, 404 with \<open>Product <id> not found\<close> when it is not. So when
  every line before the one that asks too much passes both checks, the answer is the
  400 of that line; its message names the product and the stock, not the quantity asked for.
\<close>

theorem insufficient_stock_aborts_whole_order:
  assumes "items = pre @ item # rest"
      and "find_product (products s) item = Some p"
      and "stock p < quantity item"
      and "place_order e uid (Body (ItemList items)) s = (r, s')"
  shows "status_code r \<noteq> 200
         \<and> products s' = products s \<and> orders s' = orders s \<and> order_items s' = order_items s
         \<and> accesses s' = accesses s @ [SelectProducts]
         \<and> (\<not> fetch_ok e \<longrightarrow> r = error_response 500 ''Failed to fetch products'')
         \<and> (fetch_ok e \<longrightarrow>
              (\<exists>before bad after.
                 items = before @ bad # after
                 \<and> list_all (line_ok (products s)) before \<and> \<not> line_ok (products s) bad
                 \<and> r = (case find_product (products s) bad of
                          None \<Rightarrow>
                            error_response 404 (''Product '' @ product_id bad @ '' not found'')
                        | Some q \<Rightarrow>
                            error_response 400
                              (''Insufficient stock for '' @ p_name q @ ''. Available: ''
                                 @ string_of_int (stock q)))))
         \<and> (fetch_ok e \<and> list_all (line_ok (products s)) pre \<longrightarrow>
              r = error_response 400
                    (''Insufficient stock for '' @ p_name p @ ''. Available: ''
                       @ string_of_int (stock p)))"
proof -
  have bad: "\<not> list_all (line_ok (products s)) items"
    using assms(1,2,3) by (simp add: line_ok_def)
  from place_order_rejected [OF bad assms(4)]
  have frame: "status_code r \<noteq> 200" "s' = logged SelectProducts s" by simp_all
  then have log: "accesses s' = accesses s @ [SelectProducts]" by (simp add: logged_def)
  note resp = place_order_rejected_response [OF bad assms(4)]
  have first: "\<exists>before bad after.
                 items = before @ bad # after
                 \<and> list_all (line_ok (products s)) before \<and> \<not> line_ok (products s) bad
                 \<and> r = (case find_product (products s) bad of
                          None \<Rightarrow>
                            error_response 404 (''Product '' @ product_id bad @ '' not found'')
                        | Some q \<Rightarrow>
                            error_response 400
                              (''Insufficient stock for '' @ p_name q @ ''. Available: ''
                                 @ string_of_int (stock q)))"
    if ok: "fetch_ok e"
    using validate_first_failure [OF bad] resp(2) ok by auto
  have msg: "r = error_response 400
                    (''Insufficient stock for '' @ p_name p @ ''. Available: ''
                       @ string_of_int (stock p))"
    if ok: "fetch_ok e" and pre: "list_all (line_ok (products s)) pre"
    using validate_first_short [OF pre assms(2,3), of rest] resp(2) ok assms(1) by simp
  from frame(1) frame(2) log resp(1) first msg show ?thesis by simp
qed

theorem insufficient_stock_aborts_whole_order_witness:
  "find_product (products demo_store) \<lparr>product_id = ''B'', quantity = 5\<rparr>
     = Some \<lparr>p_id = ''B'', p_name = ''Gadget'', price = 2000, stock = 2\<rparr>
   \<and> fetch_ok demo_env
   \<and> list_all (line_ok (products demo_store)) [\<lparr>product_id = ''A'', quantity = 1\<rparr>]
   \<and> fst (place_order demo_env ''u''
        (Body (ItemList [\<lparr>product_id = ''A'', quantity = 1\<rparr>, \<lparr>product_id = ''B'', quantity = 5\<rparr>]))
        demo_store)
      = error_response 400 ''Insufficient stock for Gadget. Available: 2''
   \<and> products (snd (place_order demo_env ''u''
        (Body (ItemList [\<lparr>product_id = ''A'', quantity = 1\<rparr>, \<lparr>product_id = ''B'', quantity = 5\<rparr>]))
        demo_store)) = products demo_store
   \<and> orders (snd (place_order demo_env ''u''
        (Body (ItemList [\<lparr>product_id = ''A'', quantity = 1\<rparr>, \<lparr>product_id = ''B'', quantity = 5\<rparr>]))
        demo_store)) = []
   \<and> order_items (snd (place_order demo_env ''u''
        (Body (ItemList [\<lparr>product_id = ''A'', quantity = 1\<rparr>, \<lparr>product_id = ''B'', quantity = 5\<rparr>]))
        demo_store)) = []
   \<and> accesses (snd (place_order demo_env ''u''
        (Body (ItemList [\<lparr>product_id = ''A'', quantity = 1\<rparr>, \<lparr>product_id = ''B'', quantity = 5\<rparr>]))
        demo_store)) = [SelectProducts]
   \<and> fst (place_order (demo_env\<lparr>fetch_ok := False\<rparr>) ''u''
        (Body (ItemList [\<lparr>product_id = ''A'', quantity = 1\<rparr>, \<lparr>product_id = ''B'', quantity = 5\<rparr>]))
        demo_store)
      = error_response 500 ''Failed to fetch products''"
proof -
  let ?a = "\<lparr>product_id = ''A'', quantity = 1\<rparr>"
  let ?b = "\<lparr>product_id = ''B'', quantity = 5\<rparr>"
  let ?p = "\<lparr>p_id = ''B'', p_name = ''Gadget'', price = 2000, stock = 2\<rparr>"
  let ?run = "place_order demo_env ''u'' (Body (ItemList [?a, ?b])) demo_store"
  let ?down = "place_order (demo_env\<lparr>fetch_ok := False\<rparr>) ''u'' (Body (ItemList [?a, ?b]))
                 demo_store"
  have h1: "[?a, ?b] = [?a] @ ?b # []" by simp
  have h2: "find_product (products demo_store) ?b = Some ?p"
    by (simp add: find_product_def demo_store_def)
  have h3: "stock ?p < quantity ?b" by simp
  have h4: "?run = (fst ?run, snd ?run)" by simp
  have h4': "?down = (fst ?down, snd ?down)" by simp
  have h5: "fetch_ok demo_env" by (simp add: demo_env_def)
  have h5': "\<not> fetch_ok (demo_env\<lparr>fetch_ok := False\<rparr>)" by simp
  have h6: "list_all (line_ok (products demo_store)) [?a]"
    by (simp add: line_ok_def find_product_def demo_store_def)
  have e: "orders demo_store = []" "order_items demo_store = []" "accesses demo_store = []"
    by (simp_all add: demo_store_def)
  have n: "string_of_int 2 = ''2''" by (simp add: string_of_int_def string_of_nat.simps)
  from insufficient_stock_aborts_whole_order [OF h1 h2 h3 h4]
    insufficient_stock_aborts_whole_order [OF h1 h2 h3 h4'] h2 h5 h5' h6 e n
  show ?thesis by simp
qed

text \<open>
  Claim C6 as stated fails: asking for 5 or for 7 of a product with stock 2 gives the same
  message, which holds no requested quantity; and a line with too little stock that comes
  after a line naming an unknown product is answered 404, not 400.
\<close>

theorem insufficient_stock_message_counterexample:
  "fst (place_order demo_env ''u'' (Body (ItemList [\<lparr>product_id = ''B'', quantity = 5\<rparr>])) demo_store)
     = error_response 400 ''Insufficient stock for Gadget. Available: 2''
   \<and> fst (place_order demo_env ''u'' (Body (ItemList [\<lparr>product_id = ''B'', quantity = 7\<rparr>])) demo_store)
     = error_response 400 ''Insufficient stock for Gadget. Available: 2''
   \<and> fst (place_order demo_env ''u''
        (Body (ItemList [\<lparr>product_id = ''X'', quantity = 1\<rparr>, \<lparr>product_id = ''B'', quantity = 5\<rparr>]))
        demo_store)
     = error_response 404 ''Product X not found''"
  by (simp add: run_defs)

subsection \<open>C7: Unknown product\<close>

text \<open>
  Claim C7, as amended, for a request whose entries are typed. When some line of the request
  names a product that is not in the catalog, the call never answers 200, leaves products, orders and line items as they were,
  and reaches the store once, for the read of the catalog. When that read fails the answer
  is 500 \<open>Failed to fetch products\<close>. When it is answered, the answer of the call is the
  error of the first line of the request that fails a check: 404 with
  \<open>Product <id> not found\<close> when that line's product is not in the catalog, 400 with
  \<open>Insufficient stock for <name>. Available: <stock>\<close> when it is there with too little
  stock. So when every line before the one with the unknown product passes both checks, the
  answer is 404 with that product's id.
\<close>

theorem missing_product_aborts_whole_order:
  assumes "items = pre @ item # rest"
      and "find_product (products s) item = None"
      and "place_order e uid (Body (ItemList items)) s = (r, s')"
  shows "status_code r \<noteq> 200
         \<and> products s' = products s \<and> orders s' = orders s \<and> order_items s' = order_items s
         \<and> accesses s' = accesses s @ [SelectProducts]
         \<and> (\<not> fetch_ok e \<longrightarrow> r = error_response 500 ''Failed to fetch products'')
         \<and> (fetch_ok e \<longrightarrow>
              (\<exists>before bad after.
                 items = before @ bad # after
                 \<and> list_all (line_ok (products s)) before \<and> \<not> line_ok (products s) bad
                 \<and> r = (case find_product (products s) bad of
                          None \<Rightarrow>
                            error_response 404 (''Product '' @ product_id bad @ '' not found'')
                        | Some q \<Rightarrow>
                            error_response 400
                              (''Insufficient stock for '' @ p_name q @ ''. Available: ''
                                 @ string_of_int (stock q)))))
         \<and> (fetch_ok e \<and> list_all (line_ok (products s)) pre \<longrightarrow>
              r = error_response 404 (''Product '' @ product_id item @ '' not found''))"
proof -
  have bad: "\<not> list_all (line_ok (products s)) items"
    using assms(1,2) by (simp add: line_ok_def)
  from place_order_rejected [OF bad assms(3)]
  have frame: "status_code r \<noteq> 200" "s' = logged SelectProducts s" by simp_all
  then have log: "accesses s' = accesses s @ [SelectProducts]" by (simp add: logged_def)
  note resp = place_order_rejected_response [OF bad assms(3)]
  have first: "\<exists>before bad after.
                 items = before @ bad # after
                 \<and> list_all (line_ok (products s)) before \<and> \<not> line_ok (products s) bad
                 \<and> r = (case find_product (products s) bad of
                          None \<Rightarrow>
                            error_response 404 (''Product '' @ product_id bad @ '' not found'')
                        | Some q \<Rightarrow>
                            error_response 400
                              (''Insufficient stock for '' @ p_name q @ ''. Available: ''
                                 @ string_of_int (stock q)))"
    if ok: "fetch_ok e"
    using validate_first_failure [OF bad] resp(2) ok by auto
  have msg: "r = error_response 404 (''Product '' @ product_id item @ '' not found'')"
    if ok: "fetch_ok e" and pre: "list_all (line_ok (products s)) pre"
    using validate_first_missing [OF pre assms(2), of rest] resp(2) ok assms(1) by simp
  from frame(1) frame(2) log resp(1) first msg show ?thesis by simp
qed

theorem missing_product_aborts_whole_order_witness:
  "find_product (products demo_store) \<lparr>product_id = ''X'', quantity = 1\<rparr> = None
   \<and> fetch_ok demo_env
   \<and> list_all (line_ok (products demo_store)) [\<lparr>product_id = ''A'', quantity = 1\<rparr>]
   \<and> fst (place_order demo_env ''u''
        (Body (ItemList [\<lparr>product_id = ''A'', quantity = 1\<rparr>, \<lparr>product_id = ''X'', quantity = 1\<rparr>]))
        demo_store)
      = error_response 404 ''Product X not found''
   \<and> products (snd (place_order demo_env ''u''
        (Body (ItemList [\<lparr>product_id = ''A'', quantity = 1\<rparr>, \<lparr>product_id = ''X'', quantity = 1\<rparr>]))
        demo_store)) = products demo_store
   \<and> orders (snd (place_order demo_env ''u''
        (Body (ItemList [\<lparr>product_id = ''A'', quantity = 1\<rparr>, \<lparr>product_id = ''X'', quantity = 1\<rparr>]))
        demo_store)) = []
   \<and> order_items (snd (place_order demo_env ''u''
        (Body (ItemList [\<lparr>product_id = ''A'', quantity = 1\<rparr>, \<lparr>product_id = ''X'', quantity = 1\<rparr>]))
        demo_store)) = []
   \<and> accesses (snd (place_order demo_env ''u''
        (Body (ItemList [\<lparr>product_id = ''A'', quantity = 1\<rparr>, \<lparr>product_id = ''X'', quantity = 1\<rparr>]))
        demo_store)) = [SelectProducts]
   \<and> fst (place_order (demo_env\<lparr>fetch_ok := False\<rparr>) ''u''
        (Body (ItemList [\<lparr>product_id = ''A'', quantity = 1\<rparr>, \<lparr>product_id = ''X'', quantity = 1\<rparr>]))
        demo_store)
      = error_response 500 ''Failed to fetch products''"
proof -
  let ?a = "\<lparr>product_id = ''A'', quantity = 1\<rparr>"
  let ?x = "\<lparr>product_id = ''X'', quantity = 1\<rparr>"
  let ?run = "place_order demo_env ''u'' (Body (ItemList [?a, ?x])) demo_store"
  let ?down = "place_order (demo_env\<lparr>fetch_ok := False\<rparr>) ''u'' (Body (ItemList [?a, ?x]))
                 demo_store"
  have h1: "[?a, ?x] = [?a] @ ?x # []" by simp
  have h2: "find_product (products demo_store) ?x = None"
    by (simp add: find_product_def demo_store_def)
  have h3: "?run = (fst ?run, snd ?run)" by simp
  have h3': "?down = (fst ?down, snd ?down)" by simp
  have h4: "fetch_ok demo_env" by (simp add: demo_env_def)
  have h4': "\<not> fetch_ok (demo_env\<lparr>fetch_ok := False\<rparr>)" by simp
  have h5: "list_all (line_ok (products demo_store)) [?a]"
    by (simp add: line_ok_def find_product_def demo_store_def)
  have e: "orders demo_store = []" "order_items demo_store = []" "accesses demo_store = []"
    by (simp_all add: demo_store_def)
  from missing_product_aborts_whole_order [OF h1 h2 h3]
    missing_product_aborts_whole_order [OF h1 h2 h3'] h2 h4 h4' h5 e
  show ?thesis by simp
qed

text \<open>
  Claim C7 as stated fails: the loop checks stock line by line, so a line with too little
  stock placed before the unknown product is answered first, with 400.
\<close>

theorem missing_product_counterexample:
  "fst (place_order demo_env ''u''
        (Body (ItemList [\<lparr>product_id = ''B'', quantity = 5\<rparr>, \<lparr>product_id = ''X'', quantity = 1\<rparr>]))
        demo_store)
     = error_response 400 ''Insufficient stock for Gadget. Available: 2''"
  by (simp add: run_defs)

subsection \<open>C8: Empty and malformed bodies\<close>

text \<open>
  Claim C8 (an empty or malformed item list is answered 400 without store access), at
  inputs where it fails. A body that does not parse, and an \<open>items\<close> that is no array
  and has no \<open>length\<close> of 0, throw into the \<open>catch\<close> block: the answer is 500, the
  store is not reached. So does an array with a \<open>null\<close> entry. An entry without quantity
  goes further: the catalog is read, the total is \<open>NaN\<close>, the insert of the order header
  is sent and refused, and the answer is 500. An entry whose quantity is \<open>null\<close> has the
  header inserted, the line item refused and the header deleted again, and the answer is 500.
\<close>

theorem malformed_body_answered_500:
  "place_order demo_env ''u'' BadJson demo_store
     = (\<lparr>status_code = 500, body = Thrown\<rparr>, demo_store)
   \<and> place_order demo_env ''u'' (Body (NotArray False)) demo_store
     = (\<lparr>status_code = 500, body = Thrown\<rparr>, demo_store)
   \<and> place_order demo_env ''u''
        (Body (UntypedList [Some \<lparr>u_product_id = ''A'', u_quantity = QInt 1\<rparr>, None])) demo_store
     = (\<lparr>status_code = 500, body = Thrown\<rparr>, demo_store)
   \<and> place_order demo_env ''u''
        (Body (UntypedList [Some \<lparr>u_product_id = ''A'', u_quantity = QUndefined\<rparr>])) demo_store
     = (error_response 500 ''Failed to create order'',
        demo_store\<lparr>accesses := [SelectProducts, InsertOrder]\<rparr>)
   \<and> place_order demo_env ''u''
        (Body (UntypedList [Some \<lparr>u_product_id = ''A'', u_quantity = QNull\<rparr>])) demo_store
     = (error_response 500 ''Failed to create order items'',
        demo_store\<lparr>accesses := [SelectProducts, InsertOrder, InsertOrderItems, DeleteOrder]\<rparr>)"
  by (simp add: run_defs)

subsection \<open>C9: Duplicate entries\<close>

text \<open>
  Claim C9 (duplicate entries). Whenever the function answers 200 on a store that respects
  the foreign key of the line items, the line items stored for the new order are, in order,
  the entries of the request: one line item for each entry with that entry's product and
  quantity, whether or not two entries name the same product.
\<close>

theorem one_line_item_per_entry:
  assumes "place_order e uid (Body (ItemList items)) s = (r, s')"
      and "status_code r = 200"
      and "fk_ok s"
  shows "\<exists>ord. body r = Success ord
           \<and> map (\<lambda>row. (oi_product_id row, oi_quantity row)) (items_of (o_id ord) s')
               = map (\<lambda>item. (product_id item, quantity item)) items"
proof -
  from placed_rows [OF assms] obtain rows where
    r: "body r = Success \<lparr>o_id = new_order_id e, user_id = uid,
                      total_amount = totalAmount (products s) items 0, status = ''pending''\<rparr>"
    and rows: "orderItems (products s) (new_order_id e) items = Some rows"
    and own: "items_of (new_order_id e) s' = rows"
    by blast
  from orderItems_rows [OF rows]
  have "map (\<lambda>row. (oi_product_id row, oi_quantity row)) rows
          = map (\<lambda>item. (product_id item, quantity item)) items"
    by (induction rows items rule: list_all2_induct) auto
  with r own show ?thesis by simp
qed

theorem one_line_item_per_entry_witness:
  "status_code (fst (place_order demo_env ''u''
      (Body (ItemList [\<lparr>product_id = ''A'', quantity = 2\<rparr>, \<lparr>product_id = ''A'', quantity = 2\<rparr>]))
      demo_store)) = 200
   \<and> fk_ok demo_store
   \<and> (\<exists>ord. body (fst (place_order demo_env ''u''
          (Body (ItemList [\<lparr>product_id = ''A'', quantity = 2\<rparr>, \<lparr>product_id = ''A'', quantity = 2\<rparr>]))
          demo_store)) = Success ord
        \<and> map (\<lambda>row. (oi_product_id row, oi_quantity row))
              (items_of (o_id ord) (snd (place_order demo_env ''u''
                (Body (ItemList [\<lparr>product_id = ''A'', quantity = 2\<rparr>, \<lparr>product_id = ''A'', quantity = 2\<rparr>]))
                demo_store)))
            = [(''A'', 2), (''A'', 2)])"
proof -
  let ?items = "[\<lparr>product_id = ''A'', quantity = 2\<rparr>, \<lparr>product_id = ''A'', quantity = 2\<rparr>]"
  let ?run = "place_order demo_env ''u'' (Body (ItemList ?items)) demo_store"
  have run: "?run = (fst ?run, snd ?run)" by simp
  have ok: "status_code (fst ?run) = 200" by (simp add: run_defs)
  have fk: "fk_ok demo_store" by (simp add: fk_ok_def demo_store_def)
  from one_line_item_per_entry [OF run ok fk] ok fk show ?thesis by simp
qed

subsection \<open>C10: Answers to the stock updates\<close>



end
